theory Spec2Isabelle
  imports Main
begin

section \<open>Python text helpers\<close>

text \<open>
  Python \<open>str\<close> values are modelled as \<open>string\<close>; the characters that occur in the
  program's own literals and in the captured diagnostic text are taken from the range of
  \<open>char\<close> (code points below 256).

  \<open>py_isspace\<close> lists the code points below 256 for which Python's \<open>str.isspace\<close> holds:
  tab, line feed, vertical tab, form feed, carriage return, the four separators
  \<open>0x1c\<close>..\<open>0x1f\<close>, space, \<open>0x85\<close> and \<open>0xa0\<close>. \<open>py_strip\<close> is \<open>str.strip()\<close> without
  argument: leading and trailing whitespace is removed.
\<close>

definition py_isspace :: "char \<Rightarrow> bool" where
  "py_isspace c = (of_char c \<in> set [9, 10, 11, 12, 13, 28, 29, 30, 31, 32, 133, 160 :: nat])"

definition py_strip :: "string \<Rightarrow> string" where
  "py_strip s = rev (dropWhile py_isspace (rev (dropWhile py_isspace s)))"

text \<open>\<open>str(n)\<close> for a Python integer: decimal digits, a leading minus sign when negative.\<close>

definition digits :: string where
  "digits = ''0123456789''"

function str_nat :: "nat \<Rightarrow> string" where
  "str_nat n = (if n < 10 then [digits ! n] else str_nat (n div 10) @ [digits ! (n mod 10)])"
  by pat_completeness auto
termination
  by (relation "measure id") auto

declare str_nat.simps [simp del]

definition str_int :: "int \<Rightarrow> string" where
  "str_int i = (if i < 0 then CHR ''-'' # str_nat (nat (- i)) else str_nat (nat i))"

section \<open>FFmpegThread: the process supervisor\<close>

text \<open>
  The two Qt signals of the class, \<open>finished\<close> and \<open>error_occurred(str)\<close>, are the
  notifications; \<open>emitted\<close> below records every emission of the thread object in order.
\<close>

datatype notification = Finished | Error_occurred string

datatype signal = CTRL_BREAK_EVENT | SIGINT

text \<open>\<open>Windows\<close> stands for \<open>platform.system() == "Windows"\<close>, \<open>Other_platform\<close> for the rest.\<close>

datatype platform = Windows | Other_platform

text \<open>
  The \<open>subprocess.Popen\<close> handle. \<open>returncode\<close> is what \<open>poll()\<close> reports: \<open>None\<close> while
  the process runs, its exit status afterwards. \<open>sent\<close> lists the signals delivered with
  \<open>send_signal\<close>.
\<close>

record Popen =
  returncode :: "int option"
  sent :: "signal list"

text \<open>
  Control state of the thread: constructed, \<open>start()\<close> called and \<open>run\<close> not yet past
  \<open>Popen\<close>, \<open>run\<close> blocked in \<open>communicate()\<close>, \<open>run\<close> returned.
\<close>

datatype run_state = Created | Spawning | Communicating | Returned

record FFmpegThread =
  cmd :: "string list"
  process :: "Popen option"
  stopping :: bool
  emitted :: "notification list"
  run_at :: run_state

definition FFmpegThread_init :: "string list \<Rightarrow> FFmpegThread" where
  "FFmpegThread_init c =
     \<lparr>cmd = c, process = None, stopping = False, emitted = [], run_at = Created\<rparr>"

definition emit :: "notification \<Rightarrow> FFmpegThread \<Rightarrow> FFmpegThread" where
  "emit n t = t\<lparr>emitted := emitted t @ [n]\<rparr>"

text \<open>\<open>QThread.start()\<close>: \<open>run\<close> begins on its own thread; no effect on a thread already started.\<close>

definition start :: "FFmpegThread \<Rightarrow> FFmpegThread" where
  "start t = (if run_at t = Created then t\<lparr>run_at := Spawning\<rparr> else t)"

text \<open>
  \<open>run\<close> blocks in \<open>communicate()\<close> while the user-interface thread may call \<open>stop\<close>, so
  it is split at that call. \<open>run_popen\<close> is the part up to the assignment of
  \<open>self.process\<close>: \<open>Inl e\<close> is \<open>Popen\<close> raising an exception with \<open>str(e) = e\<close>, which the
  \<open>except\<close> clause turns into \<open>error_occurred\<close>.
\<close>

definition run_popen :: "string + unit \<Rightarrow> FFmpegThread \<Rightarrow> FFmpegThread" where
  "run_popen r t =
     (case r of
        Inl e \<Rightarrow> emit (Error_occurred e) (t\<lparr>run_at := Returned\<rparr>)
      | Inr _ \<Rightarrow> t\<lparr>process := Some \<lparr>returncode = None, sent = []\<rparr>, run_at := Communicating\<rparr>)"

text \<open>
  \<open>run_communicate\<close> is the rest of \<open>run\<close>: \<open>communicate()\<close> raises (\<open>Inl e\<close>) or returns
  the text written to standard error, already decoded (\<open>Inr stderr\<close>; empty when nothing
  was written), and the exit is classified from \<open>_stopping\<close> and \<open>returncode\<close>. The test
  \<open>returncode not in (0, 2, 130)\<close> is written on the optional value, as Python evaluates it.
\<close>

definition run_communicate :: "string + string \<Rightarrow> FFmpegThread \<Rightarrow> FFmpegThread" where
  "run_communicate r t =
     (case r of
        Inl e \<Rightarrow> emit (Error_occurred e) (t\<lparr>run_at := Returned\<rparr>)
      | Inr stderr \<Rightarrow>
          (let stderr_output = (if stderr \<noteq> [] then stderr else [])
           in if stopping t then emit Finished (t\<lparr>run_at := Returned\<rparr>)
              else if (case process t of None \<Rightarrow> None | Some p \<Rightarrow> returncode p)
                        \<notin> set [Some 0, Some 2, Some 130]
              then emit (Error_occurred (py_strip stderr_output)) (t\<lparr>run_at := Returned\<rparr>)
              else emit Finished (t\<lparr>run_at := Returned\<rparr>)))"

definition interrupt_signal :: "platform \<Rightarrow> signal" where
  "interrupt_signal pf = (if pf = Windows then CTRL_BREAK_EVENT else SIGINT)"

text \<open>
  \<open>stop\<close>: the second argument says whether \<open>send_signal\<close> raises (\<open>Some e\<close>, with
  \<open>str(e) = e\<close>) or delivers the signal (\<open>None\<close>). \<open>_stopping\<close> is assigned before the
  signal is sent, inside the \<open>try\<close>.
\<close>

definition stop :: "platform \<Rightarrow> string option \<Rightarrow> FFmpegThread \<Rightarrow> FFmpegThread" where
  "stop pf send_raises t =
     (case process t of
        None \<Rightarrow> t
      | Some p \<Rightarrow>
          if returncode p = None then
            (let t1 = t\<lparr>stopping := True\<rparr>
             in case send_raises of
                  None \<Rightarrow> t1\<lparr>process := Some (p\<lparr>sent := sent p @ [interrupt_signal pf]\<rparr>)\<rparr>
                | Some e \<Rightarrow> emit (Error_occurred (''Failed to stop FFmpeg: '' @ e)) t1)
          else t)"

text \<open>The operating system ends the process with the given exit status.\<close>

definition process_exits :: "int \<Rightarrow> FFmpegThread \<Rightarrow> FFmpegThread" where
  "process_exits code t =
     (case process t of
        None \<Rightarrow> t
      | Some p \<Rightarrow> if returncode p = None then t\<lparr>process := Some (p\<lparr>returncode := Some code\<rparr>)\<rparr>
                  else t)"

text \<open>
  A session is a schedule of events on one thread object. Each part of \<open>run\<close> fires only
  where control stands before it, and \<open>communicate()\<close> returns only once the process has
  exited; \<open>stop\<close> may be called at any moment.
\<close>

datatype event =
    Start
  | Run_popen "string + unit"
  | Stop "string option"
  | Exits int
  | Run_communicate "string + string"

definition exited :: "FFmpegThread \<Rightarrow> bool" where
  "exited t = (case process t of None \<Rightarrow> False | Some p \<Rightarrow> returncode p \<noteq> None)"

fun step :: "platform \<Rightarrow> FFmpegThread \<Rightarrow> event \<Rightarrow> FFmpegThread" where
  "step pf t Start = start t"
| "step pf t (Run_popen r) = (if run_at t = Spawning then run_popen r t else t)"
| "step pf t (Stop r) = stop pf r t"
| "step pf t (Exits c) = process_exits c t"
| "step pf t (Run_communicate r) =
     (if run_at t = Communicating \<and> (exited t \<or> isl r) then run_communicate r t else t)"

fun exec :: "platform \<Rightarrow> FFmpegThread \<Rightarrow> event list \<Rightarrow> FFmpegThread" where
  "exec pf t [] = t"
| "exec pf t (e # es) = exec pf (step pf t e) es"


text \<open>
  A recording session in which \<open>Popen\<close> succeeds and the process exits with status \<open>code\<close>
  after writing \<open>err\<close> to standard error. \<open>stop\<close> is called at three places: before the
  process handle exists (\<open>rs0\<close>), while the process runs (\<open>rs1\<close>) and after it has
  exited (\<open>rs2\<close>); each list gives, call by call, whether \<open>send_signal\<close> would raise.
\<close>

definition session ::
  "string option list \<Rightarrow> string option list \<Rightarrow> int \<Rightarrow> string option list \<Rightarrow> string \<Rightarrow> event list"
where
  "session rs0 rs1 code rs2 err =
     Start # map Stop rs0 @ Run_popen (Inr ()) # map Stop rs1 @ Exits code #
     map Stop rs2 @ [Run_communicate (Inr err)]"

text \<open>What the calls of \<open>stop\<close> on a running process emit: one failure per raising send.\<close>

definition stop_errors :: "string option list \<Rightarrow> notification list" where
  "stop_errors rs =
     concat (map (\<lambda>r. case r of None \<Rightarrow> []
                        | Some e \<Rightarrow> [Error_occurred (''Failed to stop FFmpeg: '' @ e)]) rs)"

definition running :: "FFmpegThread \<Rightarrow> bool" where
  "running t = (case process t of None \<Rightarrow> False | Some p \<Rightarrow> returncode p = None)"



section \<open>Qt rectangles and the region selector\<close>

text \<open>
  \<open>QRect\<close> as Qt stores it: the corner coordinates, both inclusive, so that a rectangle
  from a point to itself is one pixel wide. The null rectangle \<open>QRect()\<close> is
  \<open>(0, 0, -1, -1)\<close>. PyQt5 takes the truth value of a \<open>QRect\<close> from \<open>isValid()\<close>.
  Coordinates are screen positions, far from the limits of Qt's 32-bit \<open>int\<close>, and are
  modelled as integers.
\<close>

record QRect =
  x1 :: int
  y1 :: int
  x2 :: int
  y2 :: int

definition QRect_null :: QRect where
  "QRect_null = \<lparr>x1 = 0, y1 = 0, x2 = - 1, y2 = - 1\<rparr>"

definition QRect_xywh :: "int \<Rightarrow> int \<Rightarrow> int \<Rightarrow> int \<Rightarrow> QRect" where
  "QRect_xywh x y w h = \<lparr>x1 = x, y1 = y, x2 = x + w - 1, y2 = y + h - 1\<rparr>"

definition QRect_points :: "int \<times> int \<Rightarrow> int \<times> int \<Rightarrow> QRect" where
  "QRect_points top_left bottom_right =
     \<lparr>x1 = fst top_left, y1 = snd top_left, x2 = fst bottom_right, y2 = snd bottom_right\<rparr>"

definition rect_x :: "QRect \<Rightarrow> int" where
  "rect_x r = x1 r"

definition rect_y :: "QRect \<Rightarrow> int" where
  "rect_y r = y1 r"

definition rect_width :: "QRect \<Rightarrow> int" where
  "rect_width r = x2 r - x1 r + 1"

definition rect_height :: "QRect \<Rightarrow> int" where
  "rect_height r = y2 r - y1 r + 1"

definition isValid :: "QRect \<Rightarrow> bool" where
  "isValid r = (x1 r \<le> x2 r \<and> y1 r \<le> y2 r)"

text \<open>\<open>QRect::normalized()\<close>: corners are swapped where the width or height is negative.\<close>

definition normalized :: "QRect \<Rightarrow> QRect" where
  "normalized r =
     \<lparr>x1 = (if x2 r < x1 r - 1 then x2 r else x1 r),
      y1 = (if y2 r < y1 r - 1 then y2 r else y1 r),
      x2 = (if x2 r < x1 r - 1 then x1 r else x2 r),
      y2 = (if y2 r < y1 r - 1 then y1 r else y2 r)\<rparr>"

text \<open>
  \<open>RegionSelector\<close>: the positions of the press and of the latest move or release, in
  widget coordinates and in global coordinates. \<open>mouseReleaseEvent\<close> returns the updated
  selector and the pair carried by \<open>regionSelected\<close>; without a preceding press the
  positions are \<open>None\<close> and the \<open>QRect\<close> constructor raises (\<open>None\<close> here).
\<close>

record RegionSelector =
  start_pos :: "(int \<times> int) option"
  end_pos :: "(int \<times> int) option"
  selection :: QRect
  start_pos_global :: "(int \<times> int) option"
  end_pos_global :: "(int \<times> int) option"
  selection_global :: QRect

definition RegionSelector_init :: RegionSelector where
  "RegionSelector_init =
     \<lparr>start_pos = None, end_pos = None, selection = QRect_null,
      start_pos_global = None, end_pos_global = None, selection_global = QRect_null\<rparr>"

definition mousePressEvent :: "int \<times> int \<Rightarrow> int \<times> int \<Rightarrow> RegionSelector \<Rightarrow> RegionSelector" where
  "mousePressEvent pos global_pos w =
     w\<lparr>start_pos := Some pos, end_pos := Some pos,
       start_pos_global := Some global_pos, end_pos_global := Some global_pos\<rparr>"

definition mouseMoveEvent :: "int \<times> int \<Rightarrow> int \<times> int \<Rightarrow> RegionSelector \<Rightarrow> RegionSelector" where
  "mouseMoveEvent pos global_pos w = w\<lparr>end_pos := Some pos, end_pos_global := Some global_pos\<rparr>"

definition mouseReleaseEvent ::
  "int \<times> int \<Rightarrow> int \<times> int \<Rightarrow> RegionSelector \<Rightarrow> (RegionSelector \<times> QRect \<times> QRect) option"
where
  "mouseReleaseEvent pos global_pos w =
     (case (start_pos w, start_pos_global w) of
        (Some sp, Some sg) \<Rightarrow>
          (let sel = normalized (QRect_points sp pos);
               sel_global = normalized (QRect_points sg global_pos)
           in Some (w\<lparr>end_pos := Some pos, selection := sel,
                      end_pos_global := Some global_pos, selection_global := sel_global\<rparr>,
                    sel, sel_global))
      | _ \<Rightarrow> None)"


section \<open>ScreenRecorder: the main window\<close>

text \<open>
  The child widgets that \<open>enable_widgets\<close> reaches through \<open>findChildren(QWidget)\<close>;
  the static labels are left out. \<open>enabled\<close> below gives the enabled flag of each.
\<close>

datatype widget =
    Screen_combo | Res_combo | Fps_spin | Audio_combo | Bit_rate_combo
  | Output_path_line_edit | Output_path_button | Preview | Region_checkbox
  | Start_button | Stop_button

datatype window_state = Normal | Minimized | Hidden

datatype box = Information | Critical

text \<open>
  The fields of the window that the recording functions read or write. The combo boxes
  and the spin box are represented by their current value. \<open>threads\<close> is the store of
  the \<open>FFmpegThread\<close> objects created so far, and \<open>ffmpeg_thread\<close> refers to one of them
  by position: assigning a new object to \<open>self.ffmpeg_thread\<close> does not end the previous
  one, whose \<open>run\<close> keeps it alive. \<open>message_boxes\<close> lists the dialogs shown, with title
  and text. Calls of the logger and the preview pixmap are not modelled.
\<close>

record ScreenRecorder =
  output_path :: "string option"
  ffmpeg_thread :: "nat option"
  threads :: "FFmpegThread list"
  capture_rect :: "QRect option"
  capture_rect_global :: "QRect option"
  selector_visible :: "bool option"
  screen_index :: int
  res_text :: string
  fps_value :: int
  audio_text :: string
  bit_rate_text :: string
  region_checked :: bool
  enabled :: "widget \<Rightarrow> bool"
  overlay_shown :: bool
  window :: window_state
  key_listener_started :: bool
  message_boxes :: "(box \<times> string \<times> string) list"

text \<open>The items that \<open>initUI\<close> adds to the resolution and bit-rate combo boxes.\<close>

definition res_items :: "string list" where
  "res_items = [''1920x1080'', ''1280x720'', ''640x480'']"

definition bit_rate_items :: "string list" where
  "bit_rate_items = [''96k'', ''128k'', ''160k'', ''192k'', ''256k'', ''320k'']"

text \<open>
  The window after \<open>__init__\<close> and \<open>window.show()\<close>: the output path is the download
  directory's \<open>screen_recording.mp4\<close>, every combo box shows its first item (\<open>None\<close> for
  the audio device), the frame rate is 30 and only the stop button is disabled.
\<close>

definition ScreenRecorder_init :: "string \<Rightarrow> ScreenRecorder" where
  "ScreenRecorder_init downloads_dir =
     \<lparr>output_path = Some (downloads_dir @ ''/screen_recording.mp4''),
      ffmpeg_thread = None, threads = [],
      capture_rect = None, capture_rect_global = None, selector_visible = None,
      screen_index = 0, res_text = ''1920x1080'', fps_value = 30,
      audio_text = ''None'', bit_rate_text = ''96k'', region_checked = False,
      enabled = (\<lambda>w. w \<noteq> Stop_button),
      overlay_shown = False, window = Normal, key_listener_started = False,
      message_boxes = []\<rparr>"

definition enable_widgets :: "bool \<Rightarrow> ScreenRecorder \<Rightarrow> ScreenRecorder" where
  "enable_widgets enable s = s\<lparr>enabled := (\<lambda>child. enable)\<rparr>"

definition setEnabled :: "widget \<Rightarrow> bool \<Rightarrow> ScreenRecorder \<Rightarrow> ScreenRecorder" where
  "setEnabled w b s = s\<lparr>enabled := (enabled s)(w := b)\<rparr>"

definition showNormal_if_away :: "ScreenRecorder \<Rightarrow> ScreenRecorder" where
  "showNormal_if_away s =
     (if window s = Minimized \<or> window s = Hidden then s\<lparr>window := Normal\<rparr> else s)"

text \<open>
  \<open>update_preview\<close>, as far as the window's fields go: when the current index names one
  of the \<open>n_screens\<close> screens, the relative rectangle is cleared after the grab.
\<close>

definition update_preview :: "nat \<Rightarrow> ScreenRecorder \<Rightarrow> ScreenRecorder" where
  "update_preview n_screens s =
     (if 0 \<le> screen_index s \<and> screen_index s < int n_screens
      then s\<lparr>capture_rect := None\<rparr> else s)"

definition set_region :: "nat \<Rightarrow> QRect \<Rightarrow> QRect \<Rightarrow> ScreenRecorder \<Rightarrow> ScreenRecorder" where
  "set_region n_screens rect global_rect s =
     (let s1 = s\<lparr>capture_rect := Some rect, capture_rect_global := Some global_rect\<rparr>;
          s2 = update_preview n_screens s1;
          s3 = showNormal_if_away s2;
          s4 = enable_widgets True s3
      in s4\<lparr>region_checked := False\<rparr>)"

text \<open>
  The geometry part of \<open>start_recording\<close> (the lines from \<open>screen_index\<close> to the clearing
  of \<open>capture_rect_global\<close>): the offsets, the \<open>-video_size\<close> text and the new value of
  \<open>capture_rect_global\<close>. \<open>screenGeometry\<close> is \<open>QApplication.desktop().screenGeometry\<close>.
  \<open>aligned_size\<close> is the pair of local variables \<open>width\<close> and \<open>height\<close>.
\<close>

definition aligned_size :: "QRect \<Rightarrow> int \<times> int" where
  "aligned_size r =
     (if rect_width r mod 2 = 0 then rect_width r else rect_width r + 1,
      if rect_height r mod 2 = 0 then rect_height r else rect_height r + 1)"

definition resolve_geometry ::
  "(int \<Rightarrow> QRect) \<Rightarrow> ScreenRecorder \<Rightarrow> int \<times> int \<times> string \<times> QRect option"
where
  "resolve_geometry screenGeometry s =
     (let screen_geometry = screenGeometry (screen_index s);
          offset_x = rect_x screen_geometry;
          offset_y = rect_y screen_geometry;
          resolution = res_text s
      in case capture_rect_global s of
           None \<Rightarrow> (offset_x, offset_y, resolution, None)
         | Some r \<Rightarrow>
             if isValid r then
               (rect_x r, rect_y r,
                str_int (fst (aligned_size r)) @ ''x'' @ str_int (snd (aligned_size r)),
                None)
             else (offset_x, offset_y, resolution, Some r))"

text \<open>The command part of \<open>start_recording\<close>: the argument list handed to \<open>FFmpegThread\<close>.\<close>

definition build_cmd ::
  "string \<Rightarrow> int \<Rightarrow> int \<Rightarrow> string \<Rightarrow> string \<Rightarrow> string \<Rightarrow> string \<Rightarrow> string list"
where
  "build_cmd fps offset_x offset_y resolution audio_device bit_rate path =
     [''ffmpeg'']
     @ [''-f'', ''gdigrab'',
        ''-framerate'', fps,
        ''-offset_x'', str_int offset_x,
        ''-offset_y'', str_int offset_y,
        ''-video_size'', resolution,
        ''-i'', ''desktop'']
     @ (if audio_device \<noteq> ''None''
        then [''-f'', ''dshow'', ''-i'', ''audio='' @ audio_device] else [])
     @ [''-vcodec'', ''libx264'', ''-pix_fmt'', ''yuv420p'', ''-preset'', ''ultrafast'']
     @ (if audio_device \<noteq> ''None'' then [''-acodec'', ''aac'', ''-b:a'', bit_rate] else [])
     @ [''-y'', path]"

definition start_recording :: "(int \<Rightarrow> QRect) \<Rightarrow> ScreenRecorder \<Rightarrow> ScreenRecorder" where
  "start_recording screenGeometry s =
     (case output_path s of
        None \<Rightarrow> s
      | Some path \<Rightarrow>
          if path = [] then s
          else
            (case resolve_geometry screenGeometry s of
               (offset_x, offset_y, resolution, rect) \<Rightarrow>
                 (let fps = str_int (fps_value s);
                      c = build_cmd fps offset_x offset_y resolution
                            (audio_text s) (bit_rate_text s) path;
                      s1 = s\<lparr>capture_rect_global := rect,
                             threads := threads s @ [start (FFmpegThread_init c)],
                             ffmpeg_thread := Some (length (threads s))\<rparr>;
                      s2 = s1\<lparr>overlay_shown := True\<rparr>;
                      s3 = enable_widgets False s2;
                      s4 = setEnabled Stop_button True s3;
                      s5 = s4\<lparr>window := Minimized\<rparr>
                  in s5\<lparr>key_listener_started := True\<rparr>)))"

text \<open>
  \<open>stop_recording\<close> calls \<open>stop\<close> on the thread that \<open>self.ffmpeg_thread\<close> refers to and
  closes the region selector when there is one.
\<close>

definition stop_recording :: "platform \<Rightarrow> string option \<Rightarrow> ScreenRecorder \<Rightarrow> ScreenRecorder" where
  "stop_recording pf send_raises s =
     (let s1 = (case ffmpeg_thread s of
                  None \<Rightarrow> s
                | Some i \<Rightarrow>
                    if i < length (threads s)
                    then s\<lparr>threads := (threads s)[i := stop pf send_raises (threads s ! i)]\<rparr>
                    else s)
      in case selector_visible s1 of
           None \<Rightarrow> s1
         | Some v \<Rightarrow> s1\<lparr>selector_visible := Some False\<rparr>)"

definition recording_finished :: "ScreenRecorder \<Rightarrow> ScreenRecorder" where
  "recording_finished s =
     (let s1 = s\<lparr>overlay_shown := False\<rparr>;
          s2 = enable_widgets True s1;
          s3 = setEnabled Stop_button False s2;
          s4 = showNormal_if_away s3
      in s4\<lparr>message_boxes := message_boxes s4 @
               [(Information, ''Done'', ''Recording stopped and saved.'')]\<rparr>)"

definition recording_failed :: "string \<Rightarrow> ScreenRecorder \<Rightarrow> ScreenRecorder" where
  "recording_failed error_msg s =
     (let s1 = s\<lparr>overlay_shown := False\<rparr>;
          s2 = setEnabled Start_button True s1;
          s3 = setEnabled Stop_button False s2
      in s3\<lparr>message_boxes := message_boxes s3 @
               [(Critical, ''Error'', ''Recording failed:'' @ [CHR 0x0A] @ error_msg)]\<rparr>)"

text \<open>
  The two connections made in \<open>start_recording\<close>: \<open>finished\<close> to \<open>recording_finished\<close>,
  \<open>error_occurred\<close> to \<open>recording_failed\<close>.
\<close>

fun deliver :: "notification \<Rightarrow> ScreenRecorder \<Rightarrow> ScreenRecorder" where
  "deliver Finished s = recording_finished s"
| "deliver (Error_occurred msg) s = recording_failed msg s"

text \<open>An event of the schedule on the thread object stored at position \<open>i\<close>.\<close>

definition thread_event :: "platform \<Rightarrow> nat \<Rightarrow> event \<Rightarrow> ScreenRecorder \<Rightarrow> ScreenRecorder" where
  "thread_event pf i e s =
     (if i < length (threads s)
      then s\<lparr>threads := (threads s)[i := step pf (threads s ! i) e]\<rparr> else s)"

text \<open>
  Reading a command line: the arguments that directly follow an occurrence of the
  option \<open>opt\<close>.
\<close>

fun option_values :: "string \<Rightarrow> string list \<Rightarrow> string list" where
  "option_values opt (a # b # rest) =
     (if a = opt then [b] else []) @ option_values opt (b # rest)"
| "option_values opt [a] = []"
| "option_values opt [] = []"


text \<open>The option names whose following arguments the statements below read.\<close>

definition is_option :: "string \<Rightarrow> bool" where
  "is_option a = (a \<in> set [''-f'', ''-i'', ''-acodec'', ''-b:a''])"

text \<open>
  A desktop for the examples, given by the geometries of its screens, the first being the
  primary one: \<open>screenGeometry\<close> of index \<open>-1\<close> is the primary screen's, of any other index
  that names no screen the null rectangle.
\<close>

definition desktop_of :: "QRect list \<Rightarrow> int \<Rightarrow> QRect" where
  "desktop_of screens i =
     (let j = (if i = - 1 then 0 else i)
      in if 0 \<le> j \<and> j < int (length screens) then screens ! nat j else QRect_null)"

section \<open>Sessions of the process supervisor\<close>

lemma exec_append: "exec pf t (xs @ ys) = exec pf (exec pf t xs) ys"
  by (induction xs arbitrary: t) simp_all

lemma exec_stops_idle: "\<not> running t \<Longrightarrow> exec pf t (map Stop rs) = t"
  by (induction rs) (auto simp: stop_def running_def split: option.splits)

lemma exec_snoc: "exec pf t (es @ [e]) = step pf (exec pf t es) e"
  by (simp add: exec_append)

lemma exec_stops_running:
  assumes "process t = Some p" "returncode p = None"
  shows "process (exec pf t (map Stop rs)) =
           Some (p\<lparr>sent := sent p @ replicate (length (filter (\<lambda>r. r = None) rs)) (interrupt_signal pf)\<rparr>)
       \<and> stopping (exec pf t (map Stop rs)) = (stopping t \<or> rs \<noteq> [])
       \<and> emitted (exec pf t (map Stop rs)) = emitted t @ stop_errors rs
       \<and> run_at (exec pf t (map Stop rs)) = run_at t
       \<and> cmd (exec pf t (map Stop rs)) = cmd t"
proof (induction rs rule: rev_induct)
  case Nil
  show ?case using assms by (simp add: stop_errors_def)
next
  case (snoc r rs)
  then show ?case
    by (cases r)
       (simp_all add: exec_snoc stop_def assms stop_errors_def emit_def Let_def
          replicate_append_same)
qed




lemma session_fields:
  shows "emitted (exec pf (FFmpegThread_init c) (session rs0 rs1 code rs2 err)) =
           stop_errors rs1 @
           [if rs1 \<noteq> [] then Finished
            else if code \<in> {0, 2, 130} then Finished
            else Error_occurred (py_strip err)]"
    and "stopping (exec pf (FFmpegThread_init c) (session rs0 rs1 code rs2 err)) = (rs1 \<noteq> [])"
    and "process (exec pf (FFmpegThread_init c) (session rs0 rs1 code rs2 err)) =
           Some \<lparr>returncode = Some code,
                 sent = replicate (length (filter (\<lambda>r. r = None) rs1)) (interrupt_signal pf)\<rparr>"
    and "run_at (exec pf (FFmpegThread_init c) (session rs0 rs1 code rs2 err)) = Returned"
proof -
  let ?t0 = "start (FFmpegThread_init c)"
  have idle0: "\<not> running ?t0"
    by (simp add: running_def start_def FFmpegThread_init_def)
  let ?t1 = "run_popen (Inr ()) ?t0"
  let ?p = "\<lparr>returncode = None, sent = []\<rparr>"
  have p1: "process ?t1 = Some ?p" "returncode ?p = None"
    by (simp_all add: run_popen_def)
  let ?t2 = "exec pf ?t1 (map Stop rs1)"
  note f2 = exec_stops_running [OF p1, of pf rs1]
  let ?t3 = "process_exits code ?t2"
  have idle3: "\<not> running ?t3"
    using f2 by (simp add: running_def process_exits_def)
  have r0: "run_at ?t0 = Spawning"
    by (simp add: start_def FFmpegThread_init_def)
  have r2: "run_at ?t2 = Communicating"
    using f2 by (simp add: run_popen_def)
  have r3: "run_at ?t3 = Communicating" "exited ?t3"
    using f2 r2 by (simp_all add: process_exits_def exited_def)
  have "exec pf (FFmpegThread_init c) (session rs0 rs1 code rs2 err) =
          exec pf (exec pf ?t0 (map Stop rs0))
            (Run_popen (Inr ()) # map Stop rs1 @ Exits code # map Stop rs2 @ [Run_communicate (Inr err)])"
    by (simp only: session_def exec.simps step.simps exec_append)
  also have "\<dots> = exec pf ?t1 (map Stop rs1 @ Exits code # map Stop rs2 @ [Run_communicate (Inr err)])"
    by (simp add: exec_stops_idle [OF idle0] r0)

  also have "\<dots> = exec pf (exec pf ?t3 (map Stop rs2)) [Run_communicate (Inr err)]"
    by (simp only: exec.simps step.simps exec_append)
  also have "\<dots> = run_communicate (Inr err) ?t3"
    by (simp add: exec_stops_idle [OF idle3] r3)
  finally have e: "exec pf (FFmpegThread_init c) (session rs0 rs1 code rs2 err) =
      run_communicate (Inr err) ?t3" .
  show "emitted (exec pf (FFmpegThread_init c) (session rs0 rs1 code rs2 err)) =
           stop_errors rs1 @
           [if rs1 \<noteq> [] then Finished
            else if code \<in> {0, 2, 130} then Finished
            else Error_occurred (py_strip err)]"
    unfolding e using f2
    by (simp add: run_communicate_def process_exits_def emit_def Let_def
          run_popen_def start_def FFmpegThread_init_def stop_errors_def)
  show "stopping (exec pf (FFmpegThread_init c) (session rs0 rs1 code rs2 err)) = (rs1 \<noteq> [])"
    unfolding e using f2
    by (simp add: run_communicate_def process_exits_def emit_def Let_def
          run_popen_def start_def FFmpegThread_init_def)
  show "process (exec pf (FFmpegThread_init c) (session rs0 rs1 code rs2 err)) =
           Some \<lparr>returncode = Some code,
                 sent = replicate (length (filter (\<lambda>r. r = None) rs1)) (interrupt_signal pf)\<rparr>"
    unfolding e using f2
    by (simp add: run_communicate_def process_exits_def emit_def Let_def
          run_popen_def start_def FFmpegThread_init_def)
  show "run_at (exec pf (FFmpegThread_init c) (session rs0 rs1 code rs2 err)) = Returned"
    unfolding e using f2
    by (simp add: run_communicate_def process_exits_def emit_def Let_def)
qed







text \<open>
  C1 (exit classification), as stated for every session, fails: a call of \<open>stop\<close> made
  after the thread was started but before the process handle exists is a stop request
  before the process exited, yet it is dropped, and the exit with status 1 is reported as
  a failure.
\<close>

theorem early_stop_counterexample:
  "emitted (exec Other_platform (FFmpegThread_init [''ffmpeg''])
      [Start, Stop None, Run_popen (Inr ()), Exits 1, Run_communicate (Inr ''boom'')])
     = [Error_occurred ''boom'']
   \<and> stopping (exec Other_platform (FFmpegThread_init [''ffmpeg''])
      [Start, Stop None, Run_popen (Inr ()), Exits 1, Run_communicate (Inr ''boom'')]) = False"
  by (simp add: FFmpegThread_init_def start_def run_popen_def stop_def process_exits_def
        run_communicate_def exited_def emit_def Let_def py_strip_def py_isspace_def)

text \<open>
  C1 as amended. In every session in which the process is spawned and exits with status
  \<open>code\<close>, \<open>run\<close> emits last, and as its only notification, \<open>finished\<close> when \<open>stop\<close> was
  called while the process was running (\<open>rs1\<close> is not empty), whatever the status. When no
  call of \<open>stop\<close> found the process running (calls before the handle exists, \<open>rs0\<close>, and
  after the exit, \<open>rs2\<close>, do not count), it emits \<open>finished\<close> for the statuses 0, 2 and
  130 and otherwise \<open>error_occurred\<close> with the stripped standard-error text. What precedes
  this notification are the failures reported by \<open>stop\<close> itself.
\<close>

theorem exit_classification:
  "emitted (exec pf (FFmpegThread_init c) (session rs0 rs1 code rs2 err)) =
     stop_errors rs1 @
     [if rs1 \<noteq> [] then Finished
      else if code \<in> {0, 2, 130} then Finished
      else Error_occurred (py_strip err)]"
  by (rule session_fields(1))

theorem exit_classification_witness:
  "emitted (exec Other_platform (FFmpegThread_init [''ffmpeg''])
      (session [] [None] 1 [] ''Conversion failed!'')) = [Finished]
   \<and> emitted (exec Windows (FFmpegThread_init [''ffmpeg''])
      (session [] [] 130 [] ''Exiting'')) = [Finished]
   \<and> emitted (exec Windows (FFmpegThread_init [''ffmpeg''])
      (session [] [] 1 [] (''  Conversion failed!'' @ [CHR 0x0A]))) =
        [Error_occurred ''Conversion failed!'']"
  using exit_classification [of Other_platform "[''ffmpeg'']" "[]" "[None]" 1 "[]" "''Conversion failed!''"]
    exit_classification [of Windows "[''ffmpeg'']" "[]" "[]" 130 "[]" "''Exiting''"]
    exit_classification [of Windows "[''ffmpeg'']" "[]" "[]" 1 "[]" "''  Conversion failed!'' @ [CHR 0x0A]"]
  by (simp add: stop_errors_def py_strip_def py_isspace_def)

text \<open>
  C2 (\<open>stop\<close> idempotent), as stated, fails: \<open>stop\<close> does not look at \<open>_stopping\<close>, and
  two successive calls on a running process deliver two interrupt signals.
\<close>

theorem stop_twice_counterexample:
  "map_option sent (process (exec Other_platform (FFmpegThread_init [''ffmpeg''])
      [Start, Run_popen (Inr ()), Stop None, Stop None])) = Some [SIGINT, SIGINT]"
  by (simp add: FFmpegThread_init_def start_def run_popen_def stop_def interrupt_signal_def Let_def)

text \<open>
  C2 as amended: \<open>stop\<close> changes nothing when there is no process handle or the process
  has exited. While the process runs, a pending stop does not hold a further call back:
  each call that delivers its signal appends one interrupt signal, so two successive
  calls send two; the stop-requested flag is set by the first and stays set, and nothing
  is emitted.
\<close>

theorem stop_repeats_signal:
  "(process t = None \<or> exited t \<longrightarrow> stop pf r t = t) \<and>
   (process t = Some p \<and> returncode p = None \<longrightarrow>
      process (stop pf None (stop pf None t)) =
        Some (p\<lparr>sent := sent p @ [interrupt_signal pf, interrupt_signal pf]\<rparr>)
      \<and> stopping (stop pf None t) \<and> stopping (stop pf None (stop pf None t))
      \<and> emitted (stop pf None (stop pf None t)) = emitted t)"
  by (auto simp: stop_def exited_def Let_def split: option.splits)

theorem stop_repeats_signal_witness:
  "stop Windows None (FFmpegThread_init [''ffmpeg'']) = FFmpegThread_init [''ffmpeg'']
   \<and> stop Windows None (process_exits 0 (run_popen (Inr ()) (start (FFmpegThread_init [''ffmpeg''])))) =
       process_exits 0 (run_popen (Inr ()) (start (FFmpegThread_init [''ffmpeg''])))
   \<and> process (stop Windows None (stop Windows None
        (run_popen (Inr ()) (start (FFmpegThread_init [''ffmpeg''])))))
      = Some \<lparr>returncode = None, sent = [CTRL_BREAK_EVENT, CTRL_BREAK_EVENT]\<rparr>"
  using stop_repeats_signal [of "FFmpegThread_init [''ffmpeg'']" Windows None "\<lparr>returncode = None, sent = []\<rparr>"]
    stop_repeats_signal [of "process_exits 0 (run_popen (Inr ()) (start (FFmpegThread_init [''ffmpeg''])))"
       Windows None "\<lparr>returncode = None, sent = []\<rparr>"]
    stop_repeats_signal [of "run_popen (Inr ()) (start (FFmpegThread_init [''ffmpeg'']))" Windows None
       "\<lparr>returncode = None, sent = []\<rparr>"]
  by (simp add: FFmpegThread_init_def start_def run_popen_def process_exits_def exited_def
        interrupt_signal_def)




text \<open>
  C10 (a stop request that finds no running process is dropped). A call of \<open>stop\<close> before
  the process handle exists or after the process has exited returns the thread object
  unchanged: the flag is not set and no signal is sent. In a session whose only calls of
  \<open>stop\<close> are of this kind, the exit is classified by the status alone, the flag is still
  unset at the end and the process has received no signal.
\<close>

theorem unheard_stop_dropped:
  "(process t = None \<or> exited t \<longrightarrow>
      stop pf r t = t)
   \<and> emitted (exec pf (FFmpegThread_init c) (session rs0 [] code rs2 err)) =
       [if code \<in> {0, 2, 130} then Finished else Error_occurred (py_strip err)]
   \<and> \<not> stopping (exec pf (FFmpegThread_init c) (session rs0 [] code rs2 err))
   \<and> process (exec pf (FFmpegThread_init c) (session rs0 [] code rs2 err)) =
       Some \<lparr>returncode = Some code, sent = []\<rparr>"
  using session_fields [of pf c rs0 "[]" code rs2 err]
  by (auto simp: stop_def exited_def stop_errors_def split: option.splits)

theorem unheard_stop_dropped_witness:
  "stop Other_platform None (FFmpegThread_init [''ffmpeg'']) = FFmpegThread_init [''ffmpeg'']
   \<and> stop Other_platform None
        (process_exits 1 (run_popen (Inr ()) (start (FFmpegThread_init [''ffmpeg''])))) =
       process_exits 1 (run_popen (Inr ()) (start (FFmpegThread_init [''ffmpeg''])))
   \<and> emitted (exec Other_platform (FFmpegThread_init [''ffmpeg''])
        (session [None] [] 255 [None] ''killed'')) = [Error_occurred ''killed'']"
  using unheard_stop_dropped [of "FFmpegThread_init [''ffmpeg'']" Other_platform None
      "[''ffmpeg'']" "[None]" 255 "[None]" "''killed''"]
    unheard_stop_dropped [of "process_exits 1 (run_popen (Inr ()) (start (FFmpegThread_init [''ffmpeg''])))"
      Other_platform None "[''ffmpeg'']" "[None]" 255 "[None]" "''killed''"]
  by (simp add: FFmpegThread_init_def start_def run_popen_def process_exits_def exited_def
        py_strip_def py_isspace_def)

section \<open>Text of numbers and option names\<close>

lemma digit_in_digits: "k < 10 \<Longrightarrow> digits ! k \<in> set digits"
  by (rule nth_mem) (simp add: digits_def)

lemma str_nat_chars: "set (str_nat n) \<subseteq> set digits"
proof (induction n rule: str_nat.induct)
  case (1 n)
  show ?case
  proof (cases "n < 10")
    case True
    then show ?thesis
      by (subst str_nat.simps) (simp add: digit_in_digits)
  next
    case False
    with 1 show ?thesis
      by (subst str_nat.simps) (simp add: digit_in_digits)
  qed
qed

lemma str_int_chars: "set (str_int i) \<subseteq> set (CHR ''-'' # digits)"
  using str_nat_chars [of "nat i"] str_nat_chars [of "nat (- i)"]
  by (auto simp: str_int_def)

lemma not_option_by_char:
  "c \<in> set a \<Longrightarrow> c \<notin> set ''-f:iacodecb'' \<Longrightarrow> \<not> is_option a"
  unfolding is_option_def by (elim contrapos_nn) (auto)

lemma option_has_letter:
  assumes "is_option a"
  shows "\<exists>c\<in>set a. c \<notin> set (CHR ''-'' # digits)"
proof -
  from assms have "a = ''-f'' \<or> a = ''-i'' \<or> a = ''-acodec'' \<or> a = ''-b:a''"
    by (simp add: is_option_def)
  then show ?thesis
    by (elim disjE) (simp_all add: digits_def)
qed

lemma str_int_not_option: "\<not> is_option (str_int i)"
  using option_has_letter [of "str_int i"] str_int_chars [of i] by blast

lemma size_text_not_option: "\<not> is_option (str_int w @ ''x'' @ str_int h)"
  by (rule not_option_by_char [of "CHR ''x''"]) simp_all

lemma res_items_not_option: "r \<in> set res_items \<Longrightarrow> \<not> is_option r"
  by (auto simp: res_items_def is_option_def)

lemma bit_rate_items_not_option: "b \<in> set bit_rate_items \<Longrightarrow> \<not> is_option b"
  by (auto simp: bit_rate_items_def is_option_def)

lemma not_option_neq:
  "\<not> is_option a \<Longrightarrow> a \<noteq> ''-f'' \<and> a \<noteq> ''-i'' \<and> a \<noteq> ''-acodec'' \<and> a \<noteq> ''-b:a''"
  by (simp add: is_option_def)

lemma option_values_build_cmd:
  assumes "\<not> is_option fps" "\<not> is_option resolution" "\<not> is_option bit_rate"
  shows "option_values ''-f'' (build_cmd fps ox oy resolution audio bit_rate path) =
           ''gdigrab'' # (if audio = ''None'' then [] else [''dshow''])"
    and "option_values ''-i'' (build_cmd fps ox oy resolution audio bit_rate path) =
           ''desktop'' # (if audio = ''None'' then [] else [''audio='' @ audio])"
    and "option_values ''-acodec'' (build_cmd fps ox oy resolution audio bit_rate path) =
           (if audio = ''None'' then [] else [''aac''])"
    and "option_values ''-b:a'' (build_cmd fps ox oy resolution audio bit_rate path) =
           (if audio = ''None'' then [] else [bit_rate])"
  using not_option_neq [OF assms(1)] not_option_neq [OF assms(2)] not_option_neq [OF assms(3)]
    not_option_neq [OF str_int_not_option [of ox]] not_option_neq [OF str_int_not_option [of oy]]
  by (simp_all add: build_cmd_def)

section \<open>Geometry, command and controls of a recording\<close>

lemma start_recording_fields:
  assumes "output_path s = Some path" "path \<noteq> []"
  shows "threads (start_recording g s) =
           threads s @
           [start (FFmpegThread_init
              (build_cmd (str_int (fps_value s))
                 (fst (resolve_geometry g s)) (fst (snd (resolve_geometry g s)))
                 (fst (snd (snd (resolve_geometry g s))))
                 (audio_text s) (bit_rate_text s) path))]"
    and "capture_rect_global (start_recording g s) = snd (snd (snd (resolve_geometry g s)))"
    and "ffmpeg_thread (start_recording g s) = Some (length (threads s))"
    and "message_boxes (start_recording g s) = message_boxes s"
    and "enabled (start_recording g s) = (\<lambda>w. w = Stop_button)"
    and "output_path (start_recording g s) = output_path s"
    and "screen_index (start_recording g s) = screen_index s"
    and "res_text (start_recording g s) = res_text s"
    and "fps_value (start_recording g s) = fps_value s"
    and "audio_text (start_recording g s) = audio_text s"
    and "bit_rate_text (start_recording g s) = bit_rate_text s"
  using assms
  by (auto simp: start_recording_def Let_def enable_widgets_def setEnabled_def fun_eq_iff
        split: prod.splits)

lemma start_cmd:
  "cmd (start (FFmpegThread_init c)) = c"
  by (simp add: start_def FFmpegThread_init_def)

lemma resolve_region:
  assumes "capture_rect_global s = Some r" "isValid r"
  shows "resolve_geometry g s =
           (rect_x r, rect_y r,
            str_int (fst (aligned_size r)) @ ''x'' @ str_int (snd (aligned_size r)), None)"
  using assms by (simp add: resolve_geometry_def Let_def)

lemma resolve_no_region:
  assumes "capture_rect_global s = None"
  shows "resolve_geometry g s =
           (rect_x (g (screen_index s)), rect_y (g (screen_index s)), res_text s, None)"
  using assms by (simp add: resolve_geometry_def Let_def)

lemma resolve_invalid:
  assumes "capture_rect_global s = Some r" "\<not> isValid r"
  shows "resolve_geometry g s =
           (rect_x (g (screen_index s)), rect_y (g (screen_index s)), res_text s, Some r)"
  using assms by (simp add: resolve_geometry_def Let_def)

lemma zero_size_invalid: "rect_width r = 0 \<or> rect_height r = 0 \<Longrightarrow> \<not> isValid r"
  by (auto simp: rect_width_def rect_height_def isValid_def)

lemma aligned_size_xywh:
  "aligned_size (QRect_xywh x y w h) =
     (if w mod 2 = 0 then w else w + 1, if h mod 2 = 0 then h else h + 1)"
  by (simp add: aligned_size_def QRect_xywh_def rect_width_def rect_height_def)

text \<open>
  C4 (even alignment of a selected region). For every stored global rectangle that
  \<open>start_recording\<close> takes as a selection (its truth value, \<open>isValid\<close>, holds), the resolved
  offsets are the rectangle's top-left corner and the \<open>-video_size\<close> text is made of the
  aligned width and height: an odd dimension is raised by one, an even one is kept.
  Aligning the aligned rectangle again changes nothing, and the aligned rectangle is again
  a selection. The command of the started thread carries these values. At the rectangle
  with corner \<open>(100, 50)\<close>, width 201 and height 201 the result is offset \<open>(100, 50)\<close> and
  size \<open>202x202\<close> (see the instance below, which also covers the rectangle built from the
  corner points \<open>(100, 50)\<close> and \<open>(301, 251)\<close>).
\<close>

theorem region_even_alignment:
  assumes "capture_rect_global s = Some r" "isValid r"
  shows "resolve_geometry g s =
           (rect_x r, rect_y r,
            str_int (fst (aligned_size r)) @ ''x'' @ str_int (snd (aligned_size r)), None)
       \<and> fst (aligned_size r) = (if odd (rect_width r) then rect_width r + 1 else rect_width r)
       \<and> snd (aligned_size r) = (if odd (rect_height r) then rect_height r + 1 else rect_height r)
       \<and> aligned_size (QRect_xywh (rect_x r) (rect_y r) (fst (aligned_size r)) (snd (aligned_size r)))
           = aligned_size r
       \<and> isValid (QRect_xywh (rect_x r) (rect_y r) (fst (aligned_size r)) (snd (aligned_size r)))
       \<and> (output_path s = Some path \<and> path \<noteq> [] \<longrightarrow>
            cmd (last (threads (start_recording g s))) =
              build_cmd (str_int (fps_value s)) (rect_x r) (rect_y r)
                (str_int (fst (aligned_size r)) @ ''x'' @ str_int (snd (aligned_size r)))
                (audio_text s) (bit_rate_text s) path)"
proof -
  have v: "1 \<le> rect_width r" "1 \<le> rect_height r"
    using assms(2) by (simp_all add: isValid_def rect_width_def rect_height_def)
  have a: "fst (aligned_size r) = (if odd (rect_width r) then rect_width r + 1 else rect_width r)"
          "snd (aligned_size r) = (if odd (rect_height r) then rect_height r + 1 else rect_height r)"
    by (simp_all add: aligned_size_def even_iff_mod_2_eq_zero)
  have i: "aligned_size (QRect_xywh (rect_x r) (rect_y r) (fst (aligned_size r)) (snd (aligned_size r)))
           = aligned_size r"
    unfolding aligned_size_xywh by (auto simp: aligned_size_def) presburger+
  have w: "isValid (QRect_xywh (rect_x r) (rect_y r) (fst (aligned_size r)) (snd (aligned_size r)))"
    using v by (simp add: a isValid_def QRect_xywh_def)
  have c: "output_path s = Some path \<and> path \<noteq> [] \<longrightarrow>
            cmd (last (threads (start_recording g s))) =
              build_cmd (str_int (fps_value s)) (rect_x r) (rect_y r)
                (str_int (fst (aligned_size r)) @ ''x'' @ str_int (snd (aligned_size r)))
                (audio_text s) (bit_rate_text s) path"
    by (simp add: start_recording_fields(1) start_cmd resolve_region [OF assms])
  show ?thesis
    using resolve_region [OF assms] a i w c by blast
qed

theorem region_even_alignment_witness:
  "resolve_geometry (desktop_of [QRect_xywh 0 0 1920 1080])
      ((ScreenRecorder_init ''C:/Users/u/Downloads'')
         \<lparr>capture_rect_global := Some (QRect_xywh 100 50 201 201)\<rparr>)
     = (100, 50, ''202x202'', None)
   \<and> resolve_geometry (desktop_of [QRect_xywh 0 0 1920 1080])
      ((ScreenRecorder_init ''C:/Users/u/Downloads'')
         \<lparr>capture_rect_global := Some (QRect_points (100, 50) (301, 251))\<rparr>)
     = (100, 50, ''202x202'', None)
   \<and> cmd (last (threads (start_recording (desktop_of [QRect_xywh 0 0 1920 1080])
      ((ScreenRecorder_init ''C:/Users/u/Downloads'')
         \<lparr>capture_rect_global := Some (QRect_xywh 100 50 201 201)\<rparr>))))
     = [''ffmpeg'', ''-f'', ''gdigrab'', ''-framerate'', ''30'', ''-offset_x'', ''100'',
        ''-offset_y'', ''50'', ''-video_size'', ''202x202'', ''-i'', ''desktop'',
        ''-vcodec'', ''libx264'', ''-pix_fmt'', ''yuv420p'', ''-preset'', ''ultrafast'',
        ''-y'', ''C:/Users/u/Downloads/screen_recording.mp4'']"
  using region_even_alignment [of
      "(ScreenRecorder_init ''C:/Users/u/Downloads'')\<lparr>capture_rect_global := Some (QRect_xywh 100 50 201 201)\<rparr>"
      "QRect_xywh 100 50 201 201" "desktop_of [QRect_xywh 0 0 1920 1080]"
      "''C:/Users/u/Downloads/screen_recording.mp4''"]
    region_even_alignment [of
      "(ScreenRecorder_init ''C:/Users/u/Downloads'')\<lparr>capture_rect_global := Some (QRect_points (100, 50) (301, 251))\<rparr>"
      "QRect_points (100, 50) (301, 251)" "desktop_of [QRect_xywh 0 0 1920 1080]"
      "''C:/Users/u/Downloads/screen_recording.mp4''"]
  by (simp add: ScreenRecorder_init_def QRect_xywh_def QRect_points_def isValid_def
        aligned_size_def rect_width_def rect_height_def rect_x_def rect_y_def
        str_int_def str_nat.simps digits_def build_cmd_def)

lemma resolution_not_option:
  assumes "res_text s \<in> set res_items"
  shows "\<not> is_option (fst (snd (snd (resolve_geometry g s))))"
  using res_items_not_option [OF assms] size_text_not_option
  by (simp add: resolve_geometry_def Let_def split: option.splits)

text \<open>
  C5 (audio stages follow the audio device). In the command that \<open>start_recording\<close> hands
  to the thread, with the resolution and bit rate taken from the combo boxes' items:
  when the audio device is \<open>None\<close>, the only input format is \<open>gdigrab\<close>, the only input is
  \<open>desktop\<close>, and no argument follows \<open>-acodec\<close> or \<open>-b:a\<close>; for any other device there is
  exactly one \<open>-f dshow\<close> with the one input \<open>audio=\<close>\<open>device\<close>, exactly one \<open>-acodec aac\<close>
  and exactly one \<open>-b:a\<close> carrying the selected bit rate.
\<close>

theorem audio_stages_follow_device:
  assumes "output_path s = Some path" "path \<noteq> []"
    and "res_text s \<in> set res_items" "bit_rate_text s \<in> set bit_rate_items"
  shows "option_values ''-f'' (cmd (last (threads (start_recording g s)))) =
           ''gdigrab'' # (if audio_text s = ''None'' then [] else [''dshow''])
       \<and> option_values ''-i'' (cmd (last (threads (start_recording g s)))) =
           ''desktop'' # (if audio_text s = ''None'' then [] else [''audio='' @ audio_text s])
       \<and> option_values ''-acodec'' (cmd (last (threads (start_recording g s)))) =
           (if audio_text s = ''None'' then [] else [''aac''])
       \<and> option_values ''-b:a'' (cmd (last (threads (start_recording g s)))) =
           (if audio_text s = ''None'' then [] else [bit_rate_text s])"
proof -
  note ov = option_values_build_cmd [OF str_int_not_option [of "fps_value s"]
      resolution_not_option [OF assms(3), of g] bit_rate_items_not_option [OF assms(4)]]
  show ?thesis
    by (simp only: start_recording_fields(1) [OF assms(1,2)] last_snoc start_cmd ov simp_thms)
qed

theorem audio_stages_follow_device_witness:
  "option_values ''-f'' (cmd (last (threads (start_recording (desktop_of [QRect_xywh 0 0 1920 1080])
       (ScreenRecorder_init ''/tmp''))))) = [''gdigrab'']
   \<and> option_values ''-acodec'' (cmd (last (threads (start_recording (desktop_of [QRect_xywh 0 0 1920 1080])
       (ScreenRecorder_init ''/tmp''))))) = []
   \<and> option_values ''-b:a'' (cmd (last (threads (start_recording (desktop_of [QRect_xywh 0 0 1920 1080])
       (ScreenRecorder_init ''/tmp''))))) = []
   \<and> option_values ''-f'' (cmd (last (threads (start_recording (desktop_of [QRect_xywh 0 0 1920 1080])
       ((ScreenRecorder_init ''/tmp'')\<lparr>audio_text := ''Microphone (USB)'', bit_rate_text := ''128k''\<rparr>)))))
       = [''gdigrab'', ''dshow'']
   \<and> option_values ''-i'' (cmd (last (threads (start_recording (desktop_of [QRect_xywh 0 0 1920 1080])
       ((ScreenRecorder_init ''/tmp'')\<lparr>audio_text := ''Microphone (USB)'', bit_rate_text := ''128k''\<rparr>)))))
       = [''desktop'', ''audio=Microphone (USB)'']
   \<and> option_values ''-acodec'' (cmd (last (threads (start_recording (desktop_of [QRect_xywh 0 0 1920 1080])
       ((ScreenRecorder_init ''/tmp'')\<lparr>audio_text := ''Microphone (USB)'', bit_rate_text := ''128k''\<rparr>)))))
       = [''aac'']
   \<and> option_values ''-b:a'' (cmd (last (threads (start_recording (desktop_of [QRect_xywh 0 0 1920 1080])
       ((ScreenRecorder_init ''/tmp'')\<lparr>audio_text := ''Microphone (USB)'', bit_rate_text := ''128k''\<rparr>)))))
       = [''128k'']"
  using audio_stages_follow_device [of "ScreenRecorder_init ''/tmp''" "''/tmp/screen_recording.mp4''"
      "desktop_of [QRect_xywh 0 0 1920 1080]"]
    audio_stages_follow_device [of
      "(ScreenRecorder_init ''/tmp'')\<lparr>audio_text := ''Microphone (USB)'', bit_rate_text := ''128k''\<rparr>"
      "''/tmp/screen_recording.mp4''" "desktop_of [QRect_xywh 0 0 1920 1080]"]
  by (simp add: ScreenRecorder_init_def res_items_def bit_rate_items_def)

text \<open>
  C7 (fallback to the full screen geometry), as stated, fails. Without a selection on a
  2560x1440 screen the size sent to the encoder is the resolution combo box's
  \<open>1920x1080\<close>, not the screen's resolution. And a click without a drag gives a rectangle
  of one pixel, not of zero width, which is taken as a selection and recorded as a
  \<open>2x2\<close> region at the click position.
\<close>

theorem fallback_size_counterexample:
  "resolve_geometry (desktop_of [QRect_xywh 0 0 2560 1440]) (ScreenRecorder_init ''/tmp'')
     = (0, 0, ''1920x1080'', None)
   \<and> str_int (rect_width (desktop_of [QRect_xywh 0 0 2560 1440] 0)) @ ''x'' @
       str_int (rect_height (desktop_of [QRect_xywh 0 0 2560 1440] 0)) = ''2560x1440''
   \<and> fst (snd (snd (resolve_geometry (desktop_of [QRect_xywh 0 0 2560 1440])
         (ScreenRecorder_init ''/tmp'')))) \<noteq>
       str_int (rect_width (desktop_of [QRect_xywh 0 0 2560 1440] 0)) @ ''x'' @
       str_int (rect_height (desktop_of [QRect_xywh 0 0 2560 1440] 0))
   \<and> map_option snd (mouseReleaseEvent (10, 20) (110, 70)
         (mousePressEvent (10, 20) (110, 70) RegionSelector_init))
     = Some (QRect_points (10, 20) (10, 20), QRect_points (110, 70) (110, 70))
   \<and> resolve_geometry (desktop_of [QRect_xywh 0 0 2560 1440])
        (set_region 1 (QRect_points (10, 20) (10, 20)) (QRect_points (110, 70) (110, 70))
           (ScreenRecorder_init ''/tmp''))
     = (110, 70, ''2x2'', None)"
  by (simp add: resolve_geometry_def ScreenRecorder_init_def desktop_of_def QRect_xywh_def
        QRect_points_def QRect_null_def rect_x_def rect_y_def rect_width_def rect_height_def
        mouseReleaseEvent_def mousePressEvent_def RegionSelector_init_def normalized_def
        set_region_def update_preview_def showNormal_if_away_def enable_widgets_def
        isValid_def aligned_size_def Let_def str_int_def str_nat.simps digits_def)

text \<open>
  C7 as amended: whenever no region is stored, and for every stored rectangle of zero
  width or zero height (which stays stored), the offset is the origin of the chosen screen
  and the size is the text of the resolution combo box, one of \<open>1920x1080\<close>, \<open>1280x720\<close>
  and \<open>640x480\<close> and so never a zero-area request; the size is not read from the screen.
  A click without a drag is not such a rectangle: its width and height are 1.
\<close>

theorem fallback_geometry:
  "(capture_rect_global s = None \<longrightarrow>
      resolve_geometry g s =
        (rect_x (g (screen_index s)), rect_y (g (screen_index s)), res_text s, None))
   \<and> (capture_rect_global s = Some r \<and> (rect_width r = 0 \<or> rect_height r = 0) \<longrightarrow>
      resolve_geometry g s =
        (rect_x (g (screen_index s)), rect_y (g (screen_index s)), res_text s, Some r))
   \<and> (res_text s \<in> set res_items \<longrightarrow>
        res_text s = ''1920x1080'' \<or> res_text s = ''1280x720'' \<or> res_text s = ''640x480'')
   \<and> rect_width (normalized (QRect_points p p)) = 1
   \<and> rect_height (normalized (QRect_points p p)) = 1"
  using resolve_no_region [of s g] resolve_invalid [of s r g] zero_size_invalid [of r]
  by (auto simp: res_items_def normalized_def QRect_points_def rect_width_def rect_height_def)

theorem fallback_geometry_witness:
  "resolve_geometry (desktop_of [QRect_xywh 0 0 1280 720, QRect_xywh 1280 0 1920 1080])
      ((ScreenRecorder_init ''/tmp'')\<lparr>screen_index := 1\<rparr>)
     = (1280, 0, ''1920x1080'', None)
   \<and> resolve_geometry (desktop_of [QRect_xywh 0 0 1280 720, QRect_xywh 1280 0 1920 1080])
      ((ScreenRecorder_init ''/tmp'')
         \<lparr>capture_rect_global := Some (QRect_points (10, 10) (9, 40)), screen_index := 1,
           res_text := ''640x480''\<rparr>)
     = (1280, 0, ''640x480'', Some (QRect_points (10, 10) (9, 40)))"
  using fallback_geometry [of "(ScreenRecorder_init ''/tmp'')\<lparr>screen_index := 1\<rparr>"
      "desktop_of [QRect_xywh 0 0 1280 720, QRect_xywh 1280 0 1920 1080]"
      "QRect_points (10, 10) (9, 40)" "(0, 0)"]
    fallback_geometry [of "(ScreenRecorder_init ''/tmp'')
         \<lparr>capture_rect_global := Some (QRect_points (10, 10) (9, 40)), screen_index := 1,
           res_text := ''640x480''\<rparr>"
      "desktop_of [QRect_xywh 0 0 1280 720, QRect_xywh 1280 0 1920 1080]"
      "QRect_points (10, 10) (9, 40)" "(0, 0)"]
  by (simp add: ScreenRecorder_init_def desktop_of_def QRect_xywh_def QRect_points_def
        rect_x_def rect_y_def rect_width_def rect_height_def res_items_def)

text \<open>
  C9 (a selected region serves one session). When \<open>start_recording\<close> runs with an output
  path and a selected region, the command of the started thread uses the region, and the
  stored global rectangle is \<open>None\<close> afterwards; a following \<open>start_recording\<close> without a
  new selection resolves to the chosen screen's origin and the text of the resolution combo
  box, and its command carries these.
\<close>

theorem region_consumed_by_one_session:
  assumes "output_path s = Some path" "path \<noteq> []"
    and "capture_rect_global s = Some r" "isValid r"
  shows "cmd (last (threads (start_recording g s))) =
           build_cmd (str_int (fps_value s)) (rect_x r) (rect_y r)
             (str_int (fst (aligned_size r)) @ ''x'' @ str_int (snd (aligned_size r)))
             (audio_text s) (bit_rate_text s) path
       \<and> capture_rect_global (start_recording g s) = None
       \<and> resolve_geometry g2 (start_recording g s) =
           (rect_x (g2 (screen_index s)), rect_y (g2 (screen_index s)), res_text s, None)
       \<and> cmd (last (threads (start_recording g2 (start_recording g s)))) =
           build_cmd (str_int (fps_value s))
             (rect_x (g2 (screen_index s))) (rect_y (g2 (screen_index s))) (res_text s)
             (audio_text s) (bit_rate_text s) path"
proof -
  let ?s1 = "start_recording g s"
  note f = start_recording_fields [OF assms(1,2), of g]
  have c1: "capture_rect_global ?s1 = None"
    by (simp add: f(2) resolve_region [OF assms(3,4)])
  have p1: "output_path ?s1 = Some path"
    by (simp add: f(6) assms(1))
  have r2: "resolve_geometry g2 ?s1 =
           (rect_x (g2 (screen_index s)), rect_y (g2 (screen_index s)), res_text s, None)"
    by (simp add: resolve_no_region [OF c1] f(7,8))
  have "cmd (last (threads (start_recording g2 ?s1))) =
           build_cmd (str_int (fps_value s))
             (rect_x (g2 (screen_index s))) (rect_y (g2 (screen_index s))) (res_text s)
             (audio_text s) (bit_rate_text s) path"
    by (simp add: start_recording_fields(1) [OF p1 assms(2)] start_cmd r2 f(9,10,11))
  moreover have "cmd (last (threads ?s1)) =
           build_cmd (str_int (fps_value s)) (rect_x r) (rect_y r)
             (str_int (fst (aligned_size r)) @ ''x'' @ str_int (snd (aligned_size r)))
             (audio_text s) (bit_rate_text s) path"
    by (simp add: f(1) start_cmd resolve_region [OF assms(3,4)])
  ultimately show ?thesis using c1 r2 by blast
qed

theorem region_consumed_by_one_session_witness:
  "cmd (last (threads (start_recording (desktop_of [QRect_xywh 0 0 1920 1080])
      ((ScreenRecorder_init ''/tmp'')\<lparr>capture_rect_global := Some (QRect_xywh 100 50 201 201)\<rparr>))))
     = [''ffmpeg'', ''-f'', ''gdigrab'', ''-framerate'', ''30'', ''-offset_x'', ''100'',
        ''-offset_y'', ''50'', ''-video_size'', ''202x202'', ''-i'', ''desktop'',
        ''-vcodec'', ''libx264'', ''-pix_fmt'', ''yuv420p'', ''-preset'', ''ultrafast'',
        ''-y'', ''/tmp/screen_recording.mp4'']
   \<and> cmd (last (threads (start_recording (desktop_of [QRect_xywh 0 0 1920 1080])
      (start_recording (desktop_of [QRect_xywh 0 0 1920 1080])
        ((ScreenRecorder_init ''/tmp'')\<lparr>capture_rect_global := Some (QRect_xywh 100 50 201 201)\<rparr>)))))
     = [''ffmpeg'', ''-f'', ''gdigrab'', ''-framerate'', ''30'', ''-offset_x'', ''0'',
        ''-offset_y'', ''0'', ''-video_size'', ''1920x1080'', ''-i'', ''desktop'',
        ''-vcodec'', ''libx264'', ''-pix_fmt'', ''yuv420p'', ''-preset'', ''ultrafast'',
        ''-y'', ''/tmp/screen_recording.mp4'']"
  using region_consumed_by_one_session [of
      "(ScreenRecorder_init ''/tmp'')\<lparr>capture_rect_global := Some (QRect_xywh 100 50 201 201)\<rparr>"
      "''/tmp/screen_recording.mp4''" "QRect_xywh 100 50 201 201"
      "desktop_of [QRect_xywh 0 0 1920 1080]" "desktop_of [QRect_xywh 0 0 1920 1080]"]
  by (simp add: ScreenRecorder_init_def QRect_xywh_def isValid_def desktop_of_def
        aligned_size_def rect_width_def rect_height_def rect_x_def rect_y_def
        str_int_def str_nat.simps digits_def build_cmd_def)

text \<open>
  C6 (starting while a process runs fails fast), as stated, fails: \<open>start_recording\<close> has
  no test for a running process. Called while the first process runs, it starts a second
  thread, whose \<open>run\<close> spawns a second process, and shows no dialog. The state is within
  the user's reach: when \<open>stop\<close> fails to send the signal, the slot \<open>recording_failed\<close>
  enables the start button while the process is still running.
\<close>

theorem second_process_counterexample:
  "map running (threads
      (thread_event Windows 1 (Run_popen (Inr ()))
        (start_recording (desktop_of [QRect_xywh 0 0 1920 1080])
          (thread_event Windows 0 (Run_popen (Inr ()))
            (start_recording (desktop_of [QRect_xywh 0 0 1920 1080])
              (ScreenRecorder_init ''/tmp'')))))) = [True, True]
   \<and> message_boxes
      (thread_event Windows 1 (Run_popen (Inr ()))
        (start_recording (desktop_of [QRect_xywh 0 0 1920 1080])
          (thread_event Windows 0 (Run_popen (Inr ()))
            (start_recording (desktop_of [QRect_xywh 0 0 1920 1080])
              (ScreenRecorder_init ''/tmp''))))) = []
   \<and> enabled
      (recording_failed ''Failed to stop FFmpeg: denied''
        (stop_recording Windows (Some ''denied'')
          (thread_event Windows 0 (Run_popen (Inr ()))
            (start_recording (desktop_of [QRect_xywh 0 0 1920 1080])
              (ScreenRecorder_init ''/tmp''))))) Start_button
   \<and> map running (threads
      (recording_failed ''Failed to stop FFmpeg: denied''
        (stop_recording Windows (Some ''denied'')
          (thread_event Windows 0 (Run_popen (Inr ()))
            (start_recording (desktop_of [QRect_xywh 0 0 1920 1080])
              (ScreenRecorder_init ''/tmp'')))))) = [True]
   \<and> map emitted (threads
        (stop_recording Windows (Some ''denied'')
          (thread_event Windows 0 (Run_popen (Inr ()))
            (start_recording (desktop_of [QRect_xywh 0 0 1920 1080])
              (ScreenRecorder_init ''/tmp'')))))
       = [[Error_occurred ''Failed to stop FFmpeg: denied'']]"
  by (simp add: ScreenRecorder_init_def start_recording_def resolve_geometry_def Let_def
        enable_widgets_def setEnabled_def thread_event_def stop_recording_def
        recording_failed_def running_def start_def FFmpegThread_init_def run_popen_def
        stop_def emit_def)

text \<open>
  C6 as amended: whenever an output path is set, \<open>start_recording\<close> creates and starts one
  new supervisor thread, whether or not an earlier process is still running; the threads
  already there are left as they are and no error is shown. What stands against a second
  session is that \<open>start_recording\<close> returns with the start button disabled and only the
  stop button enabled.
\<close>

theorem start_has_no_running_guard:
  assumes "output_path s = Some path" "path \<noteq> []"
  shows "length (threads (start_recording g s)) = Suc (length (threads s))
       \<and> take (length (threads s)) (threads (start_recording g s)) = threads s
       \<and> run_at (last (threads (start_recording g s))) = Spawning
       \<and> ffmpeg_thread (start_recording g s) = Some (length (threads s))
       \<and> message_boxes (start_recording g s) = message_boxes s
       \<and> \<not> enabled (start_recording g s) Start_button
       \<and> enabled (start_recording g s) Stop_button
       \<and> (\<forall>w. enabled (start_recording g s) w = (w = Stop_button))"
  by (simp add: start_recording_fields [OF assms] start_def FFmpegThread_init_def)

theorem start_has_no_running_guard_witness:
  "length (threads
      (start_recording (desktop_of [QRect_xywh 0 0 1920 1080])
        (thread_event Windows 0 (Run_popen (Inr ()))
          (start_recording (desktop_of [QRect_xywh 0 0 1920 1080])
            (ScreenRecorder_init ''/tmp''))))) = 2
   \<and> message_boxes
      (start_recording (desktop_of [QRect_xywh 0 0 1920 1080])
        (thread_event Windows 0 (Run_popen (Inr ()))
          (start_recording (desktop_of [QRect_xywh 0 0 1920 1080])
            (ScreenRecorder_init ''/tmp'')))) = []"
  using start_has_no_running_guard [of
      "thread_event Windows 0 (Run_popen (Inr ()))
          (start_recording (desktop_of [QRect_xywh 0 0 1920 1080])
            (ScreenRecorder_init ''/tmp''))"
      "''/tmp/screen_recording.mp4''" "desktop_of [QRect_xywh 0 0 1920 1080]"]
  by (simp add: ScreenRecorder_init_def start_recording_def resolve_geometry_def Let_def
        enable_widgets_def setEnabled_def thread_event_def)

text \<open>
  C8 (controls after a failed session): evaluation of the failure path. After
  \<open>start_recording\<close> and the delivery of \<open>error_occurred\<close>, the dialog shows the diagnostic
  text and no further thread is started, but only the start button is enabled: the other
  controls stay disabled and the window stays minimized. The slot \<open>recording_finished\<close>
  does enable every control but the stop button and restores the window.
\<close>

theorem failed_session_leaves_controls_disabled:
  "map (enabled (deliver (Error_occurred ''Conversion failed!'')
          (start_recording (desktop_of [QRect_xywh 0 0 1920 1080]) (ScreenRecorder_init ''/tmp''))))
     [Screen_combo, Res_combo, Fps_spin, Audio_combo, Bit_rate_combo, Output_path_line_edit,
      Output_path_button, Preview, Region_checkbox, Start_button, Stop_button]
     = [False, False, False, False, False, False, False, False, False, True, False]
   \<and> window (deliver (Error_occurred ''Conversion failed!'')
          (start_recording (desktop_of [QRect_xywh 0 0 1920 1080]) (ScreenRecorder_init ''/tmp'')))
     = Minimized
   \<and> message_boxes (deliver (Error_occurred ''Conversion failed!'')
          (start_recording (desktop_of [QRect_xywh 0 0 1920 1080]) (ScreenRecorder_init ''/tmp'')))
     = [(Critical, ''Error'', ''Recording failed:'' @ [CHR 0x0A] @ ''Conversion failed!'')]
   \<and> length (threads (deliver (Error_occurred ''Conversion failed!'')
          (start_recording (desktop_of [QRect_xywh 0 0 1920 1080]) (ScreenRecorder_init ''/tmp''))))
     = 1
   \<and> map (enabled (deliver Finished
          (start_recording (desktop_of [QRect_xywh 0 0 1920 1080]) (ScreenRecorder_init ''/tmp''))))
     [Screen_combo, Res_combo, Fps_spin, Audio_combo, Bit_rate_combo, Output_path_line_edit,
      Output_path_button, Preview, Region_checkbox, Start_button, Stop_button]
     = [True, True, True, True, True, True, True, True, True, True, False]
   \<and> window (deliver Finished
          (start_recording (desktop_of [QRect_xywh 0 0 1920 1080]) (ScreenRecorder_init ''/tmp'')))
     = Normal"
  by (simp add: ScreenRecorder_init_def start_recording_def resolve_geometry_def Let_def
        enable_widgets_def setEnabled_def recording_failed_def recording_finished_def
        showNormal_if_away_def)

end
